theory Spec2Isabelle
  imports Complex_Main "HOL-Library.AList" "HOL-Library.Multiset"
begin

section \<open>Data model of apewisdomscraper2.py\<close>

text \<open>
  Python floats are modelled as \<^typ>\<open>real\<close>: rounding, infinities and NaN are outside the
  model. The one float that the program builds itself, \<^verbatim>\<open>-float('inf')\<close>, is the
  constructor \<open>Neg_inf\<close> of the type of sort keys. Python strings are \<^typ>\<open>string\<close>
  (ASCII). The built-in \<^verbatim>\<open>float(s)\<close> on a string is a parameter \<open>py_float\<close> of every
  function that calls it: \<open>None\<close> is the built-in's \<^verbatim>\<open>ValueError\<close>.
\<close>

type_synonym timestamp = nat

type_synonym float_parser = "string \<Rightarrow> real option"

datatype py_error = ZeroDivisionError

text \<open>What the \<^verbatim>\<open>try\<close> block of \<^verbatim>\<open>fetch_apewisdom_data\<close> can raise before the cells are
  processed: \<^verbatim>\<open>requests.get\<close> (network), \<^verbatim>\<open>raise_for_status\<close> (status), the HTML parser.\<close>

datatype fetch_exception = Network_error | Http_error nat | Parse_error

text \<open>The outcome of the request: an exception, or the texts of the \<^verbatim>\<open>td.td-right\<close> cells and
  of the \<^verbatim>\<open>percentage-green\<close>/\<^verbatim>\<open>percentage-red\<close> spans of the page, in document order.\<close>

datatype http_result = Raised fetch_exception | Page "string list" "string list"

text \<open>The outcome of \<^verbatim>\<open>yf.Ticker(t).history(...)\<close>: an exception, or the rows
  (index, Close) of the data frame.\<close>

datatype stock_result = Stock_raised | History "(timestamp \<times> real) list"

text \<open>The dictionary appended to the result of \<^verbatim>\<open>fetch_apewisdom_data\<close> (lines 106-110).\<close>

record ranking_entry =
  ticker :: string
  entry_mentions :: string
  entry_sentiment_change :: real

text \<open>The dictionary stored for a ticker whose prices were fetched (lines 140-146).\<close>

record ticker_info =
  prices :: "real list"
  timestamps :: "timestamp list"
  price_change :: real
  sentiment_change :: real
  mentions :: string

text \<open>A value of \<^verbatim>\<open>ticker_data\<close>: the string stored at line 149, or the dictionary.\<close>

datatype ticker_record = ErrorRecord string | ValidRecord ticker_info

datatype sort_field = Mentions | Price_change | Sentiment_change

record sort_state =
  field :: sort_field
  reverse :: bool

text \<open>The module's globals, and the text of the \<^verbatim>\<open>status_text\<close> widget. \<^verbatim>\<open>ticker_data\<close> is a
  Python dict: an association list in insertion order with distinct keys.
  \<^verbatim>\<open>last_update_time\<close> is \<open>None\<close> for \<^verbatim>\<open>"Never"\<close>.\<close>

record state =
  ticker_data :: "(string \<times> ticker_record) list"
  last_update_time :: "real option"
  current_sort :: sort_state
  status_text :: string

text \<open>The world outside the program at one call of \<^verbatim>\<open>update_data\<close>.\<close>

record env =
  page :: http_result
  stock :: "string \<Rightarrow> stock_result"
  now :: real

text \<open>Sort keys: floats extended by \<^verbatim>\<open>-float('inf')\<close>, ordered as Python orders them.\<close>

datatype key = Neg_inf | Num real

instantiation key :: linorder
begin

fun less_eq_key :: "key \<Rightarrow> key \<Rightarrow> bool" where
  "less_eq_key Neg_inf k = True"
| "less_eq_key (Num x) Neg_inf = False"
| "less_eq_key (Num x) (Num y) = (x \<le> y)"

definition less_key :: "key \<Rightarrow> key \<Rightarrow> bool" where
  "less_key a b = (a \<le> b \<and> \<not> b \<le> a)"

instance
proof
  fix x y z :: key
  show "(x < y) = (x \<le> y \<and> \<not> y \<le> x)"
    by (simp add: less_key_def)
  show "x \<le> x"
    by (cases x) simp_all
  show "x \<le> y \<Longrightarrow> y \<le> z \<Longrightarrow> x \<le> z"
    by (cases x; cases y; cases z) simp_all
  show "x \<le> y \<Longrightarrow> y \<le> x \<Longrightarrow> x = y"
    by (cases x; cases y) simp_all
  show "x \<le> y \<or> y \<le> x"
    by (cases x; cases y) auto
qed

end

section \<open>String helpers\<close>

text \<open>\<^verbatim>\<open>str.strip()\<close> removes the whitespace of both ends; in ASCII the whitespace
  characters are 9-13 and 28-32.\<close>

definition isspace :: "char \<Rightarrow> bool" where
  "isspace c = (let n = (of_char c :: nat) in (9 \<le> n \<and> n \<le> 13) \<or> (28 \<le> n \<and> n \<le> 32))"

definition strip :: "string \<Rightarrow> string" where
  "strip s = rev (dropWhile isspace (rev (dropWhile isspace s)))"

definition rstrip :: "char \<Rightarrow> string \<Rightarrow> string" where
  "rstrip c s = rev (dropWhile (\<lambda>d. d = c) (rev s))"

definition replace_empty :: "char \<Rightarrow> string \<Rightarrow> string" where
  "replace_empty c s = filter (\<lambda>d. d \<noteq> c) s"

text \<open>\<^verbatim>\<open>str.isdigit()\<close>: non-empty and digits only.\<close>

definition isdigit_char :: "char \<Rightarrow> bool" where
  "isdigit_char c = (let n = (of_char c :: nat) in 48 \<le> n \<and> n \<le> 57)"

definition isdigit :: "string \<Rightarrow> bool" where
  "isdigit s = (s \<noteq> [] \<and> list_all isdigit_char s)"

section \<open>fetch_stock_data (lines 59-70)\<close>

definition fetch_stock_data ::
  "(string \<Rightarrow> stock_result) \<Rightarrow> string \<Rightarrow> real list option \<times> timestamp list option" where
  "fetch_stock_data yf t =
     (let clean_ticker = replace_empty (CHR ''$'') t in
      case yf clean_ticker of
        Stock_raised \<Rightarrow> (None, None)
      | History hist \<Rightarrow>
          if length hist > 0 then (Some (map snd hist), Some (map fst hist))
          else (None, None))"

section \<open>fetch_apewisdom_data (lines 72-116)\<close>

text \<open>Lines 86-91: one sentiment per span, 0.0 when the text is not a float.\<close>

definition span_sentiment :: "float_parser \<Rightarrow> string \<Rightarrow> real" where
  "span_sentiment py_float text =
     (case py_float (rstrip (CHR ''%'') (strip text)) of Some v \<Rightarrow> v | None \<Rightarrow> 0)"

text \<open>Lines 95-110: the loop \<^verbatim>\<open>for i in range(0, len(raw_data), 3)\<close>, with the loop variable
  \<open>i\<close>, \<open>sentiment_idx\<close> and the list built so far as arguments.\<close>

function group_loop ::
  "string list \<Rightarrow> real list \<Rightarrow> nat \<Rightarrow> nat \<Rightarrow> ranking_entry list \<Rightarrow> ranking_entry list" where
  "group_loop raw_data sentiments i sentiment_idx acc =
     (if i < length raw_data then
        (if i + 2 < length raw_data then
           (let t = raw_data ! (i + 1);
                m = raw_data ! (i + 2)
            in if isdigit t then group_loop raw_data sentiments (i + 3) sentiment_idx acc
               else
                 (let sentiment = (if sentiment_idx < length sentiments
                                   then sentiments ! sentiment_idx else 0)
                  in group_loop raw_data sentiments (i + 3) (sentiment_idx + 1)
                       (acc @ [\<lparr>ticker = t, entry_mentions = m,
                                entry_sentiment_change = sentiment\<rparr>])))
         else group_loop raw_data sentiments (i + 3) sentiment_idx acc)
      else acc)"
  by pat_completeness auto
termination
  by (relation "measure (\<lambda>(raw_data, sentiments, i, sentiment_idx, acc). length raw_data - i)")
     auto

declare group_loop.simps [simp del]

definition fetch_apewisdom_data :: "float_parser \<Rightarrow> http_result \<Rightarrow> ranking_entry list option" where
  "fetch_apewisdom_data py_float response =
     (case response of
        Raised e \<Rightarrow> None
      | Page cells spans \<Rightarrow>
          (let raw_data = map strip (take 30 cells);
               sentiments = map (span_sentiment py_float) spans;
               entries = group_loop raw_data sentiments 0 0 []
           in Some (take 10 entries)))"

section \<open>update_data (lines 118-153)\<close>

text \<open>Lines 135-149, the body of the loop over \<^verbatim>\<open>ape_data\<close>: the value stored for one
  entry, or the \<^verbatim>\<open>ZeroDivisionError\<close> of the float division at line 138.\<close>

definition build_record ::
  "ranking_entry \<Rightarrow> real list option \<times> timestamp list option \<Rightarrow> py_error + ticker_record" where
  "build_record item fetched =
     (case fetched of
        (Some ps, Some ts) \<Rightarrow>
          if ps \<noteq> [] \<and> ts \<noteq> [] then
            (let current_price = last ps;
                 prev_price = hd ps
             in if prev_price = 0 then Inl ZeroDivisionError
                else Inr (ValidRecord
                  \<lparr>prices = ps, timestamps = ts,
                   price_change = ((current_price - prev_price) / prev_price) * 100,
                   sentiment_change = entry_sentiment_change item,
                   mentions = entry_mentions item\<rparr>))
          else Inr (ErrorRecord ''Error fetching data'')
      | _ \<Rightarrow> Inr (ErrorRecord ''Error fetching data''))"

text \<open>Lines 131-149: the loop. An exception leaves the dict as filled so far.\<close>

fun update_loop ::
  "(string \<Rightarrow> stock_result) \<Rightarrow> ranking_entry list \<Rightarrow> (string \<times> ticker_record) list
     \<Rightarrow> py_error option \<times> (string \<times> ticker_record) list" where
  "update_loop yf [] td = (None, td)"
| "update_loop yf (item # items) td =
     (case build_record item (fetch_stock_data yf (ticker item)) of
        Inl e \<Rightarrow> (Some e, td)
      | Inr v \<Rightarrow> update_loop yf items (AList.update (ticker item) v td))"

text \<open>The whole of \<^verbatim>\<open>update_data\<close>: the exception that escapes, if any, and the new state.
  The widgets other than \<^verbatim>\<open>status_text\<close> are not modelled.\<close>

definition update_data :: "float_parser \<Rightarrow> env \<Rightarrow> state \<Rightarrow> py_error option \<times> state" where
  "update_data py_float e st =
     (let ape_data = fetch_apewisdom_data py_float (page e) in
      if ape_data = None \<or> ape_data = Some [] then
        (None, st\<lparr>status_text := ''Error fetching tickers from ApeWisdom!''\<rparr>)
      else
        (case update_loop (stock e) (the ape_data) [] of
           (Some err, td) \<Rightarrow> (Some err, st\<lparr>ticker_data := td\<rparr>)
         | (None, td) \<Rightarrow> (None, st\<lparr>ticker_data := td, last_update_time := Some (now e)\<rparr>)))"

section \<open>get_color_from_percentage (lines 164-171)\<close>

definition get_color_from_percentage :: "real \<Rightarrow> real list" where
  "get_color_from_percentage percentage =
     (if percentage > 0 then
        (let intensity = min (\<bar>percentage\<bar> / 20) 1 in [0, intensity, 0])
      else
        (let intensity = min (\<bar>percentage\<bar> / 20) 1 in [intensity, 0, 0]))"

section \<open>sort_tickers (lines 173-183)\<close>

definition sort_tickers :: "sort_field \<Rightarrow> state \<Rightarrow> state" where
  "sort_tickers f st =
     (if field (current_sort st) = f then
        st\<lparr>current_sort := (current_sort st)\<lparr>reverse := \<not> reverse (current_sort st)\<rparr>\<rparr>
      else
        st\<lparr>current_sort := (current_sort st)\<lparr>field := f, reverse := True\<rparr>\<rparr>)"

section \<open>sorted_ticker_data (lines 185-199)\<close>

definition get_sort_key :: "float_parser \<Rightarrow> sort_state \<Rightarrow> string \<times> ticker_record \<Rightarrow> key" where
  "get_sort_key py_float cs item =
     (case snd item of
        ErrorRecord s \<Rightarrow> Neg_inf
      | ValidRecord d \<Rightarrow>
          (case field cs of
             Mentions \<Rightarrow>
               (case py_float (replace_empty (CHR '','') (mentions d)) of
                  Some v \<Rightarrow> Num v
                | None \<Rightarrow> Neg_inf)
           | Price_change \<Rightarrow> Num (price_change d)
           | Sentiment_change \<Rightarrow> Num (sentiment_change d)))"

text \<open>The built-in \<^verbatim>\<open>sorted(items, key=k, reverse=r)\<close>: a stable sort in ascending order of
  the keys; with \<^verbatim>\<open>reverse=True\<close> the list is reversed, sorted and reversed again, which
  keeps the order of items with equal keys.\<close>

definition py_sorted :: "('a \<Rightarrow> 'k::linorder) \<Rightarrow> bool \<Rightarrow> 'a list \<Rightarrow> 'a list" where
  "py_sorted k r xs = (if r then rev (sort_key k (rev xs)) else sort_key k xs)"

definition sorted_ticker_data :: "float_parser \<Rightarrow> state \<Rightarrow> (string \<times> ticker_record) list" where
  "sorted_ticker_data py_float st =
     (let items = ticker_data st
      in py_sorted (get_sort_key py_float (current_sort st)) (reverse (current_sort st)) items)"

section \<open>get_next_ticker (lines 255-264)\<close>

text \<open>\<^verbatim>\<open>list.index\<close>: the first position of the value, \<open>None\<close> for \<^verbatim>\<open>ValueError\<close>.\<close>

fun index :: "'a list \<Rightarrow> 'a \<Rightarrow> nat option" where
  "index [] x = None"
| "index (y # ys) x = (if y = x then Some 0 else map_option Suc (index ys x))"

definition get_next_ticker :: "string \<Rightarrow> state \<Rightarrow> string option" where
  "get_next_ticker current_ticker st =
     (let tickers = map fst (ticker_data st) in
      case index tickers current_ticker of
        Some current_index \<Rightarrow>
          if int current_index < int (length tickers) - 1
          then Some (''row_'' @ tickers ! (current_index + 1))
          else None
      | None \<Rightarrow> None)"

section \<open>A float parser for closed examples\<close>

text \<open>A parser that agrees with \<^verbatim>\<open>float\<close> on the strings of ASCII digits and answers
  \<open>None\<close> on every other string. It stands for \<open>py_float\<close> in the closed examples only,
  which apply it to digit strings and to strings that \<^verbatim>\<open>float\<close> rejects too.\<close>

definition digit_value :: "char \<Rightarrow> nat" where
  "digit_value c = of_char c - 48"

definition digits_float :: float_parser where
  "digits_float s =
     (if isdigit s then Some (real (foldl (\<lambda>n c. 10 * n + digit_value c) 0 s)) else None)"

section \<open>Notions used to state the properties\<close>

text \<open>\<^verbatim>\<open>isinstance(data, str)\<close>: the value is the error string.\<close>

definition is_error :: "ticker_record \<Rightarrow> bool" where
  "is_error data = (case data of ErrorRecord s \<Rightarrow> True | ValidRecord d \<Rightarrow> False)"

text \<open>The cells cut into complete groups of three (rank, ticker, mentions); an incomplete
  last group is dropped.\<close>

fun groups3 :: "'a list \<Rightarrow> ('a \<times> 'a \<times> 'a) list" where
  "groups3 (r # t # m # rest) = (r, t, m) # groups3 rest"
| "groups3 rest = []"

text \<open>The entries of the groups whose ticker is not a digit string; the \<open>n\<close>-th accepted
  group takes the \<open>(k + n)\<close>-th sentiment, or 0.0 when there is none.\<close>

fun accepted :: "(string \<times> string \<times> string) list \<Rightarrow> real list \<Rightarrow> nat \<Rightarrow> ranking_entry list" where
  "accepted [] sentiments k = []"
| "accepted ((r, t, m) # gs) sentiments k =
     (if isdigit t then accepted gs sentiments k
      else \<lparr>ticker = t, entry_mentions = m,
            entry_sentiment_change = (if k < length sentiments then sentiments ! k else 0)\<rparr>
           # accepted gs sentiments (k + 1))"

text \<open>\<open>y\<close> occurs in \<open>xs\<close> after the first occurrence of \<open>x\<close>. The items of a dict are
  distinct, so there this is: \<open>x\<close> comes before \<open>y\<close>.\<close>

definition precedes :: "'a \<Rightarrow> 'a \<Rightarrow> 'a list \<Rightarrow> bool" where
  "precedes x y xs = (y \<in> set (tl (dropWhile (\<lambda>z. z \<noteq> x) xs)))"

text \<open>For a sort state, the rows whose key is \<^verbatim>\<open>-inf\<close> and the rows whose key is a number,
  each in the order of the list they are taken from.\<close>

definition sentinel_rows ::
  "float_parser \<Rightarrow> sort_state \<Rightarrow> (string \<times> ticker_record) list \<Rightarrow> (string \<times> ticker_record) list" where
  "sentinel_rows py_float cs rows = filter (\<lambda>x. get_sort_key py_float cs x = Neg_inf) rows"

definition other_rows ::
  "float_parser \<Rightarrow> sort_state \<Rightarrow> (string \<times> ticker_record) list \<Rightarrow> (string \<times> ticker_record) list" where
  "other_rows py_float cs rows = filter (\<lambda>x. get_sort_key py_float cs x \<noteq> Neg_inf) rows"

text \<open>A store for the closed examples: an error row, and three valid rows of which one has
  a mention count that is not a number.\<close>

definition example_store :: "(string \<times> ticker_record) list" where
  "example_store =
     [(''GME'', ErrorRecord ''Error fetching data''),
      (''AMC'', ValidRecord \<lparr>prices = [10, 12], timestamps = [1, 2], price_change = 20,
                 sentiment_change = 5, mentions = ''1,234''\<rparr>),
      (''TSLA'', ValidRecord \<lparr>prices = [10, 11], timestamps = [1, 2], price_change = 10,
                 sentiment_change = 7, mentions = ''N/A''\<rparr>),
      (''BB'', ValidRecord \<lparr>prices = [10, 15], timestamps = [1, 2], price_change = 50,
                 sentiment_change = 5, mentions = ''99''\<rparr>)]"

definition example_state :: "bool \<Rightarrow> state" where
  "example_state r =
     \<lparr>ticker_data = example_store, last_update_time = None,
      current_sort = \<lparr>field = Mentions, reverse = r\<rparr>, status_text = ''''\<rparr>"

text \<open>A valid row whose value for the sort field is not a number: only \<open>mentions\<close> is a
  string that \<^verbatim>\<open>float\<close> can reject.\<close>

definition unparsable :: "float_parser \<Rightarrow> sort_state \<Rightarrow> string \<times> ticker_record \<Rightarrow> bool" where
  "unparsable py_float cs item =
     (case snd item of
        ErrorRecord s \<Rightarrow> False
      | ValidRecord d \<Rightarrow>
          field cs = Mentions \<and> py_float (replace_empty (CHR '','') (mentions d)) = None)"

text \<open>The example store sorted by price change, and a store whose first row has a mention
  count that is not a number.\<close>

definition example_price_state :: "bool \<Rightarrow> state" where
  "example_price_state r =
     \<lparr>ticker_data = example_store, last_update_time = None,
      current_sort = \<lparr>field = Price_change, reverse = r\<rparr>, status_text = ''''\<rparr>"

definition unparsable_store :: "(string \<times> ticker_record) list" where
  "unparsable_store =
     [(''TSLA'', ValidRecord \<lparr>prices = [10, 11], timestamps = [1, 2], price_change = 10,
                 sentiment_change = 7, mentions = ''N/A''\<rparr>),
      (''GME'', ErrorRecord ''Error fetching data'')]"

section \<open>The colour of a percentage\<close>

text \<open>
  C5. For every percentage \<open>p\<close>, \<^verbatim>\<open>get_color_from_percentage\<close> returns three components,
  each in [0,1]: \<open>[0, min(|p|/20, 1), 0]\<close> when \<open>p > 0\<close> and \<open>[min(|p|/20, 1), 0, 0]\<close>
  when \<open>p \<le> 0\<close>. At 0 the result is black, at 20 full green, at -20 full red, and 40 is
  clamped to the colour of 20.
\<close>

theorem color_from_percentage:
  "get_color_from_percentage p =
     (if p > 0 then [0, min (\<bar>p\<bar> / 20) 1, 0] else [min (\<bar>p\<bar> / 20) 1, 0, 0])
   \<and> length (get_color_from_percentage p) = 3
   \<and> list_all (\<lambda>c. 0 \<le> c \<and> c \<le> 1) (get_color_from_percentage p)
   \<and> get_color_from_percentage 0 = [0, 0, 0]
   \<and> get_color_from_percentage 20 = [0, 1, 0]
   \<and> get_color_from_percentage (- 20) = [1, 0, 0]
   \<and> get_color_from_percentage 40 = get_color_from_percentage 20"
  by (simp add: get_color_from_percentage_def)

section \<open>Building the record of one ranking entry\<close>

text \<open>
  C1. For every price series with at least 2 points and a nonzero first price, building a
  record yields a ValidRecord whose \<open>price_change\<close> is exactly
  \<open>(last_price - first_price) / first_price * 100\<close>; the record is a function of the entry
  and the series alone.
\<close>

theorem build_record_price_change:
  assumes "2 \<le> length series" and "snd (hd series) \<noteq> 0"
  shows "build_record item (Some (map snd series), Some (map fst series)) =
     Inr (ValidRecord
       \<lparr>prices = map snd series, timestamps = map fst series,
        price_change = ((snd (last series) - snd (hd series)) / snd (hd series)) * 100,
        sentiment_change = entry_sentiment_change item,
        mentions = entry_mentions item\<rparr>)"
proof -
  from assms(1) have ne: "series \<noteq> []" by auto
  then have "hd (map snd series) = snd (hd series)" "last (map snd series) = snd (last series)"
    by (simp_all add: hd_map last_map)
  with ne assms(2) show ?thesis
    by (simp add: build_record_def Let_def)
qed

theorem build_record_price_change_witness:
  "build_record \<lparr>ticker = ''GME'', entry_mentions = ''1,234'', entry_sentiment_change = 5\<rparr>
     (Some [10, 11, 12], Some [1, 2, 3]) =
   Inr (ValidRecord \<lparr>prices = [10, 11, 12], timestamps = [1, 2, 3], price_change = 20,
        sentiment_change = 5, mentions = ''1,234''\<rparr>)"
  using build_record_price_change
    [of "[(1, 10), (2, 11), (3, 12)]"
        "\<lparr>ticker = ''GME'', entry_mentions = ''1,234'', entry_sentiment_change = 5\<rparr>"]
  by simp

text \<open>The series that \<^verbatim>\<open>fetch_stock_data\<close> hands over is the one of the data frame.\<close>

lemma fetch_stock_data_history:
  "yf (replace_empty (CHR ''$'') t) = History series \<Longrightarrow> series \<noteq> [] \<Longrightarrow>
     fetch_stock_data yf t = (Some (map snd series), Some (map fst series))"
  by (simp add: fetch_stock_data_def)

lemma fetch_stock_data_nothing:
  "yf (replace_empty (CHR ''$'') t) = Stock_raised \<or> yf (replace_empty (CHR ''$'') t) = History [] \<Longrightarrow>
     fetch_stock_data yf t = (None, None)"
  by (auto simp: fetch_stock_data_def)

text \<open>
  C2, as the code has it. For every ranking entry, building its record produces an
  ErrorRecord (not a ValidRecord and not an exception) whenever the price series is absent
  or has no points. (A series of one point with a nonzero price is not among these cases:
  it yields a ValidRecord with a price change of 0.)
\<close>

theorem build_record_no_series:
  assumes "ps = None \<or> ps = Some [] \<or> ts = None \<or> ts = Some []"
  shows "build_record item (ps, ts) = Inr (ErrorRecord ''Error fetching data'')"
  using assms by (auto simp: build_record_def split: option.splits)

theorem build_record_no_series_witness:
  "build_record \<lparr>ticker = ''XXX'', entry_mentions = ''7'', entry_sentiment_change = 0\<rparr>
     (fetch_stock_data (\<lambda>t. History []) ''XXX'') = Inr (ErrorRecord ''Error fetching data'')"
  using build_record_no_series [of None None]
  by (simp add: fetch_stock_data_def)

text \<open>The series of the single point (timestamp 1, price 10) has fewer than 2 points and
  yields a ValidRecord.\<close>

theorem build_record_one_point_counterexample:
  "build_record \<lparr>ticker = ''GME'', entry_mentions = ''7'', entry_sentiment_change = 0\<rparr>
     (fetch_stock_data (\<lambda>t. History [(1, 10)]) ''GME'') =
   Inr (ValidRecord \<lparr>prices = [10], timestamps = [1], price_change = 0,
        sentiment_change = 0, mentions = ''7''\<rparr>)"
  by (simp add: build_record_def fetch_stock_data_def Let_def)

text \<open>A first price of 0 stops line 138 with \<^verbatim>\<open>ZeroDivisionError\<close>, which nothing in
  \<^verbatim>\<open>update_data\<close> catches.\<close>

lemma build_record_zero_first_price:
  "ps \<noteq> [] \<Longrightarrow> ts \<noteq> [] \<Longrightarrow> hd ps = 0 \<Longrightarrow>
     build_record item (Some ps, Some ts) = Inl ZeroDivisionError"
  by (simp add: build_record_def Let_def)

lemma update_loop_zero_first_price:
  "update_loop (\<lambda>t. History [(1, 0), (2, 5)])
     [\<lparr>ticker = ''GME'', entry_mentions = ''7'', entry_sentiment_change = 0\<rparr>] [] =
   (Some ZeroDivisionError, [])"
  by (simp add: build_record_def fetch_stock_data_def Let_def)

section \<open>The sort request\<close>

text \<open>
  C4. For every sort state, requesting a sort on the active field flips the direction and
  changes nothing else, so that requesting it twice restores the state; requesting a sort on
  another field sets that field with direction descending, whatever the direction was.
\<close>

theorem sort_tickers_toggle:
  "sort_tickers (field (current_sort st)) st =
     st\<lparr>current_sort := \<lparr>field = field (current_sort st), reverse = \<not> reverse (current_sort st)\<rparr>\<rparr>
   \<and> sort_tickers (field (current_sort st)) (sort_tickers (field (current_sort st)) st) = st
   \<and> (f \<noteq> field (current_sort st) \<longrightarrow>
        sort_tickers f st = st\<lparr>current_sort := \<lparr>field = f, reverse = True\<rparr>\<rparr>)"
  by (simp add: sort_tickers_def)

theorem sort_tickers_toggle_witness:
  "sort_tickers Price_change
     \<lparr>ticker_data = [], last_update_time = None,
      current_sort = \<lparr>field = Mentions, reverse = False\<rparr>, status_text = ''''\<rparr> =
   \<lparr>ticker_data = [], last_update_time = None,
    current_sort = \<lparr>field = Price_change, reverse = True\<rparr>, status_text = ''''\<rparr>"
  using sort_tickers_toggle
    [of "\<lparr>ticker_data = [], last_update_time = None,
      current_sort = \<lparr>field = Mentions, reverse = False\<rparr>, status_text = ''''\<rparr>" Price_change]
  by simp

section \<open>A failed ranking fetch\<close>

text \<open>
  C6. Whatever is raised while the ranking page is fetched and parsed (network error, error
  status, parser exception), \<^verbatim>\<open>fetch_apewisdom_data\<close> returns \<^verbatim>\<open>None\<close>, and
  \<^verbatim>\<open>update_data\<close> then returns without an exception, having changed the status text only:
  the records, the time of the last update and the sort state are what they were.
\<close>

theorem failed_fetch_keeps_store:
  "fetch_apewisdom_data py_float (Raised x) = None
   \<and> update_data py_float (e\<lparr>page := Raised x\<rparr>) st =
       (None, st\<lparr>status_text := ''Error fetching tickers from ApeWisdom!''\<rparr>)
   \<and> ticker_data (snd (update_data py_float (e\<lparr>page := Raised x\<rparr>) st)) = ticker_data st
   \<and> last_update_time (snd (update_data py_float (e\<lparr>page := Raised x\<rparr>) st)) = last_update_time st
   \<and> current_sort (snd (update_data py_float (e\<lparr>page := Raised x\<rparr>) st)) = current_sort st"
  by (simp add: fetch_apewisdom_data_def update_data_def)

text \<open>The store keeps distinct tickers, as a dict does.\<close>

lemma update_loop_distinct:
  "distinct (map fst td) \<Longrightarrow> distinct (map fst (snd (update_loop yf items td)))"
  by (induction yf items td rule: update_loop.induct)
     (auto simp: distinct_update split: sum.splits)

lemma update_data_distinct:
  "distinct (map fst (ticker_data st)) \<Longrightarrow>
     distinct (map fst (ticker_data (snd (update_data py_float e st))))"
  using update_loop_distinct [of "[]" "stock e" "the (fetch_apewisdom_data py_float (page e))"]
  by (auto simp: update_data_def Let_def split: prod.splits option.splits)

section \<open>The ranking parser\<close>

lemma drop_three:
  assumes "i + 2 < length xs"
  shows "drop i xs = xs ! i # xs ! (i + 1) # xs ! (i + 2) # drop (i + 3) xs"
proof -
  from assms have "drop i xs = xs ! i # drop (Suc i) xs"
    by (simp add: Cons_nth_drop_Suc)
  also from assms have "drop (Suc i) xs = xs ! (i + 1) # drop (Suc (Suc i)) xs"
    by (simp add: Cons_nth_drop_Suc)
  also from assms have "drop (Suc (Suc i)) xs = xs ! (i + 2) # drop (Suc (Suc (Suc i))) xs"
    by (simp add: Cons_nth_drop_Suc)
  finally show ?thesis by (simp add: numeral_3_eq_3)
qed

lemma groups3_short: "length xs < 3 \<Longrightarrow> groups3 xs = []"
  by (cases xs rule: groups3.cases) simp_all

lemma group_loop_past_end:
  "length raw_data \<le> i \<Longrightarrow> group_loop raw_data sentiments i k acc = acc"
  by (subst group_loop.simps) simp

text \<open>The loop over the indices 0, 3, 6, ... appends the accepted groups of the cells from
  \<open>i\<close> on.\<close>

lemma group_loop_accepted:
  "group_loop raw_data sentiments i k acc =
     acc @ accepted (groups3 (drop i raw_data)) sentiments k"
proof (induction raw_data sentiments i k acc rule: group_loop.induct)
  case (1 raw_data sentiments i k acc)
  show ?case
  proof (cases "i + 2 < length raw_data")
    case True
    note d = drop_three [OF True]
    show ?thesis
    proof (cases "isdigit (raw_data ! (i + 1))")
      case True
      with \<open>i + 2 < length raw_data\<close> "1.IH"(1) [OF _ _ refl refl] d show ?thesis
        by (subst group_loop.simps) simp
    next
      case False
      with \<open>i + 2 < length raw_data\<close> "1.IH"(2) [OF _ _ refl refl _ refl] d show ?thesis
        by (subst group_loop.simps) (simp add: Let_def)
    qed
  next
    case False
    then have "groups3 (drop i raw_data) = []"
      by (intro groups3_short) simp
    moreover from False have "group_loop raw_data sentiments i k acc = acc"
      by (subst group_loop.simps) (simp add: group_loop_past_end)
    ultimately show ?thesis by simp
  qed
qed

lemma length_groups3: "length (groups3 xs) = length xs div 3"
  by (induction xs rule: groups3.induct) simp_all

lemma length_accepted: "length (accepted gs sentiments k) \<le> length gs"
  by (induction gs sentiments k rule: accepted.induct) auto

lemma accepted_cells:
  "map (\<lambda>e. (ticker e, entry_mentions e)) (accepted gs sentiments k) =
     map snd (filter (\<lambda>g. \<not> isdigit (fst (snd g))) gs)"
  by (induction gs sentiments k rule: accepted.induct) auto

text \<open>Sentiments go to the accepted entries by position.\<close>

lemma accepted_sentiments:
  "map entry_sentiment_change (accepted gs sentiments k) =
     map (\<lambda>j. if k + j < length sentiments then sentiments ! (k + j) else 0)
       [0..<length (accepted gs sentiments k)]"
proof (induction gs sentiments k rule: accepted.induct)
  case (1 sentiments k)
  then show ?case by simp
next
  case (2 r t m gs sentiments k)
  show ?case
  proof (cases "isdigit t")
    case True
    with 2 show ?thesis by simp
  next
    case False
    let ?n = "length (accepted gs sentiments (k + 1))"
    have "[0..<Suc ?n] = 0 # map Suc [0..<?n]"
      by (simp add: upt_conv_Cons map_Suc_upt del: upt_Suc)
    with False 2 show ?thesis by (simp add: comp_def del: upt_Suc)
  qed
qed

lemma fetch_page:
  "fetch_apewisdom_data py_float (Page cells spans) =
     Some (take 10 (accepted (groups3 (map strip (take 30 cells)))
                      (map (span_sentiment py_float) spans) 0))"
  by (simp add: fetch_apewisdom_data_def Let_def group_loop_accepted)

text \<open>Thirty cells are ten groups, so the final \<^verbatim>\<open>[:10]\<close> never cuts anything off.\<close>

lemma accepted_at_most_ten:
  "length (accepted (groups3 (map strip (take 30 cells))) sentiments k) \<le> 10"
proof -
  have "length (groups3 (map strip (take 30 cells))) \<le> 10"
    by (simp add: length_groups3)
  with length_accepted [of "groups3 (map strip (take 30 cells))" sentiments k]
  show ?thesis by linarith
qed

lemma length9:
  assumes "length xs = 9"
  obtains a b c d e f g h i where "xs = [a, b, c, d, e, f, g, h, i]"
proof -
  from assms have "xs = [xs ! 0, xs ! 1, xs ! 2, xs ! 3, xs ! 4, xs ! 5, xs ! 6, xs ! 7, xs ! 8]"
    by (intro nth_equalityI) (auto simp: nth_Cons' less_Suc_eq numeral_eq_Suc)
  then show ?thesis by (rule that)
qed

text \<open>
  C7. On a page that was fetched, the ranking parser returns entries: it takes the cells in
  groups of 3 (rank, ticker, mentions), leaves out every group whose ticker cell is a pure
  digit string, and returns at most 10 entries, in the order of the page. In particular, for
  exactly 3 groups (9 cells) of which exactly one ticker cell is a pure digit string, it
  returns exactly 2 entries, those of the other two groups.
\<close>

theorem fetch_apewisdom_data_groups:
  "\<exists>entries. fetch_apewisdom_data py_float (Page cells spans) = Some entries
     \<and> length entries \<le> 10
     \<and> map (\<lambda>e. (ticker e, entry_mentions e)) entries =
         take 10 (map snd (filter (\<lambda>g. \<not> isdigit (fst (snd g)))
                     (groups3 (map strip (take 30 cells)))))
     \<and> list_all (\<lambda>e. \<not> isdigit (ticker e)) entries
     \<and> (length cells = 9 \<and>
          length (filter isdigit (map strip [cells ! 1, cells ! 4, cells ! 7])) = 1 \<longrightarrow>
          length entries = 2 \<and>
          map ticker entries =
            filter (\<lambda>t. \<not> isdigit t) (map strip [cells ! 1, cells ! 4, cells ! 7]))"
proof -
  let ?gs = "groups3 (map strip (take 30 cells))"
  let ?acc = "accepted ?gs (map (span_sentiment py_float) spans) 0"
  let ?entries = "take 10 ?acc"
  have pairs: "map (\<lambda>e. (ticker e, entry_mentions e)) ?entries =
      take 10 (map snd (filter (\<lambda>g. \<not> isdigit (fst (snd g))) ?gs))"
    by (simp only: take_map [symmetric] accepted_cells)
  have "set (map (\<lambda>e. (ticker e, entry_mentions e)) ?entries)
      \<subseteq> set (map snd (filter (\<lambda>g. \<not> isdigit (fst (snd g))) ?gs))"
    unfolding pairs by (rule set_take_subset)
  then have nodigit: "list_all (\<lambda>e. \<not> isdigit (ticker e)) ?entries"
    by (auto simp: list_all_iff)
  have fixture: "length ?entries = 2 \<and>
      map ticker ?entries = filter (\<lambda>t. \<not> isdigit t) (map strip [cells ! 1, cells ! 4, cells ! 7])"
    if len: "length cells = 9"
      and one: "length (filter isdigit (map strip [cells ! 1, cells ! 4, cells ! 7])) = 1"
  proof -
    from len obtain r1 t1 m1 r2 t2 m2 r3 t3 m3
      where cells: "cells = [r1, t1, m1, r2, t2, m2, r3, t3, m3]"
      by (rule length9)
    have "map ticker ?entries = map fst (map (\<lambda>e. (ticker e, entry_mentions e)) ?entries)"
      by (simp add: comp_def)
    also have "\<dots> = filter (\<lambda>t. \<not> isdigit t) (map strip [cells ! 1, cells ! 4, cells ! 7])"
      unfolding pairs using one by (simp add: cells split: if_splits)
    finally have t: "map ticker ?entries =
        filter (\<lambda>t. \<not> isdigit t) (map strip [cells ! 1, cells ! 4, cells ! 7])" .
    have two: "length (filter (\<lambda>t. \<not> isdigit t) (map strip [cells ! 1, cells ! 4, cells ! 7])) = 2"
      using one by (simp add: cells split: if_splits)
    have "length ?entries = length (map ticker ?entries)"
      by (simp only: length_map)
    also have "\<dots> = 2"
      unfolding t by (rule two)
    finally have "length ?entries = 2" .
    with t show ?thesis by (intro conjI)
  qed
  show ?thesis
    using pairs nodigit fixture by (simp add: fetch_page)
qed

theorem fetch_apewisdom_data_groups_witness:
  "\<exists>entries.
     fetch_apewisdom_data digits_float
       (Page [''1'', ''GME'', '' 1,234'', ''2'', ''2'', ''77'', ''3'', ''AMC '', ''5'']
             [''5%'', ''x'']) = Some entries
     \<and> map (\<lambda>e. (ticker e, entry_mentions e)) entries = [(''GME'', ''1,234''), (''AMC'', ''5'')]"
  using fetch_apewisdom_data_groups
    [of digits_float "[''1'', ''GME'', '' 1,234'', ''2'', ''2'', ''77'', ''3'', ''AMC '', ''5'']"
        "[''5%'', ''x'']"]
  by (auto simp add: strip_def isspace_def isdigit_def isdigit_char_def)

text \<open>The same page, evaluated: the entry of the digit group is gone and the second
  sentiment, which is not a number, counts as 0.0.\<close>

lemma fetch_apewisdom_data_example:
  "fetch_apewisdom_data digits_float
       (Page [''1'', ''GME'', '' 1,234'', ''2'', ''2'', ''77'', ''3'', ''AMC '', ''5'']
             [''5%'', ''x''])
   = Some [\<lparr>ticker = ''GME'', entry_mentions = ''1,234'', entry_sentiment_change = 5\<rparr>,
           \<lparr>ticker = ''AMC'', entry_mentions = ''5'', entry_sentiment_change = 0\<rparr>]"
  by (simp add: fetch_page strip_def rstrip_def isspace_def isdigit_def isdigit_char_def
      span_sentiment_def digits_float_def digit_value_def)

section \<open>The next ticker\<close>

lemma index_Some_iff:
  "index xs x = Some i \<longleftrightarrow> i < length xs \<and> xs ! i = x \<and> (\<forall>j<i. xs ! j \<noteq> x)"
proof (induction xs arbitrary: i)
  case Nil
  then show ?case by simp
next
  case (Cons y ys)
  show ?case
  proof (cases "y = x")
    case True
    then show ?thesis by (cases i) auto
  next
    case False
    show ?thesis
    proof (cases i)
      case 0
      with False show ?thesis by simp
    next
      case (Suc k)
      have "(\<forall>j<Suc k. (y # ys) ! j \<noteq> x) \<longleftrightarrow> (\<forall>j<k. ys ! j \<noteq> x)"
        using False by (auto simp: less_Suc_eq_0_disj)
      with Suc False Cons.IH [of k] show ?thesis by auto
    qed
  qed
qed

lemma index_None_iff: "index xs x = None \<longleftrightarrow> x \<notin> set xs"
  by (induction xs) auto

lemma index_distinct_nth: "distinct xs \<Longrightarrow> i < length xs \<Longrightarrow> index xs (xs ! i) = Some i"
  by (auto simp: index_Some_iff nth_eq_iff_index_eq)

text \<open>
  C9, as the code has it. In a store (a dict: distinct tickers), for the ticker at position
  \<open>i\<close> of the insertion order that is not the last, \<^verbatim>\<open>get_next_ticker\<close> returns the row
  identifier of the next ticker, that is \<^verbatim>\<open>row_\<close> followed by the ticker at position
  \<open>i + 1\<close>; for the last ticker and for a ticker that is not in the store it returns
  \<^verbatim>\<open>None\<close>. The function reads the store and returns a value only.
\<close>

theorem get_next_ticker_row:
  assumes "distinct (map fst (ticker_data st))"
  shows "(i + 1 < length (ticker_data st) \<longrightarrow>
            get_next_ticker (fst (ticker_data st ! i)) st =
              Some (''row_'' @ fst (ticker_data st ! (i + 1))))
       \<and> (i + 1 = length (ticker_data st) \<longrightarrow>
            get_next_ticker (fst (ticker_data st ! i)) st = None)
       \<and> (t \<notin> fst ` set (ticker_data st) \<longrightarrow> get_next_ticker t st = None)"
proof (intro conjI impI)
  assume "i + 1 < length (ticker_data st)"
  then show "get_next_ticker (fst (ticker_data st ! i)) st =
              Some (''row_'' @ fst (ticker_data st ! (i + 1)))"
    using index_distinct_nth [OF assms, of i] by (simp add: get_next_ticker_def)
next
  assume "i + 1 = length (ticker_data st)"
  then show "get_next_ticker (fst (ticker_data st ! i)) st = None"
    using index_distinct_nth [OF assms, of i] by (simp add: get_next_ticker_def)
next
  assume "t \<notin> fst ` set (ticker_data st)"
  then have "index (map fst (ticker_data st)) t = None"
    by (simp add: index_None_iff)
  then show "get_next_ticker t st = None"
    by (simp add: get_next_ticker_def)
qed

theorem get_next_ticker_row_witness:
  "get_next_ticker ''GME''
     \<lparr>ticker_data = [(''GME'', ErrorRecord ''Error fetching data''),
                     (''AMC'', ErrorRecord ''Error fetching data'')],
      last_update_time = None,
      current_sort = \<lparr>field = Mentions, reverse = True\<rparr>, status_text = ''''\<rparr>
   = Some ''row_AMC''
   \<and> get_next_ticker ''AMC''
     \<lparr>ticker_data = [(''GME'', ErrorRecord ''Error fetching data''),
                     (''AMC'', ErrorRecord ''Error fetching data'')],
      last_update_time = None,
      current_sort = \<lparr>field = Mentions, reverse = True\<rparr>, status_text = ''''\<rparr>
   = None
   \<and> get_next_ticker ''TSLA''
     \<lparr>ticker_data = [(''GME'', ErrorRecord ''Error fetching data''),
                     (''AMC'', ErrorRecord ''Error fetching data'')],
      last_update_time = None,
      current_sort = \<lparr>field = Mentions, reverse = True\<rparr>, status_text = ''''\<rparr>
   = None"
  using get_next_ticker_row
    [of "\<lparr>ticker_data = [(''GME'', ErrorRecord ''Error fetching data''),
                     (''AMC'', ErrorRecord ''Error fetching data'')],
      last_update_time = None,
      current_sort = \<lparr>field = Mentions, reverse = True\<rparr>, status_text = ''''\<rparr>" 0 "''TSLA''"]
    get_next_ticker_row
    [of "\<lparr>ticker_data = [(''GME'', ErrorRecord ''Error fetching data''),
                     (''AMC'', ErrorRecord ''Error fetching data'')],
      last_update_time = None,
      current_sort = \<lparr>field = Mentions, reverse = True\<rparr>, status_text = ''''\<rparr>" 1 "''TSLA''"]
  by simp

text \<open>With the tickers GME and AMC in the store, the successor of GME is the string
  \<^verbatim>\<open>row_AMC\<close>, not the ticker symbol AMC.\<close>

theorem get_next_ticker_symbol_counterexample:
  "get_next_ticker ''GME''
     \<lparr>ticker_data = [(''GME'', ErrorRecord ''Error fetching data''),
                     (''AMC'', ErrorRecord ''Error fetching data'')],
      last_update_time = None,
      current_sort = \<lparr>field = Mentions, reverse = True\<rparr>, status_text = ''''\<rparr>
   = Some ''row_AMC''
   \<and> get_next_ticker ''GME''
     \<lparr>ticker_data = [(''GME'', ErrorRecord ''Error fetching data''),
                     (''AMC'', ErrorRecord ''Error fetching data'')],
      last_update_time = None,
      current_sort = \<lparr>field = Mentions, reverse = True\<rparr>, status_text = ''''\<rparr>
   \<noteq> Some ''AMC''"
  by (simp add: get_next_ticker_def)

section \<open>The sorted view\<close>

text \<open>Facts about \<^verbatim>\<open>sorted\<close>: it permutes the list, orders it by key, and keeps the order of
  the items of equal key, in both directions.\<close>

lemma Neg_inf_least: "Neg_inf \<le> k"
  by simp

lemma le_Neg_inf_iff: "k \<le> Neg_inf \<longleftrightarrow> k = Neg_inf"
  by (cases k) simp_all

lemma sorted_sentinel_split:
  "sorted (map K ys) \<Longrightarrow>
     ys = filter (\<lambda>x. K x = Neg_inf) ys @ filter (\<lambda>x. K x \<noteq> Neg_inf) ys"
proof (induction ys)
  case Nil
  then show ?case by simp
next
  case (Cons y ys)
  show ?case
  proof (cases "K y = Neg_inf")
    case True
    with Cons show ?thesis by simp
  next
    case False
    from Cons.prems have "\<forall>z\<in>set ys. K y \<le> K z" by simp
    with False have "\<forall>z\<in>set ys. K z \<noteq> Neg_inf"
      by (metis le_Neg_inf_iff)
    then have "filter (\<lambda>x. K x = Neg_inf) ys = []" "filter (\<lambda>x. K x \<noteq> Neg_inf) ys = ys"
      by (simp_all add: filter_empty_conv filter_id_conv)
    with False show ?thesis by simp
  qed
qed

lemma py_sorted_stable:
  "filter (\<lambda>x. K x = k) (py_sorted K r xs) = filter (\<lambda>x. K x = k) xs"
proof (cases r)
  case True
  have "filter (\<lambda>x. K x = k) (rev (sort_key K (rev xs))) =
        rev (filter (\<lambda>x. K x = k) (sort_key K (rev xs)))"
    by (simp only: rev_filter)
  also have "\<dots> = rev (filter (\<lambda>x. K x = k) (rev xs))"
    by (simp only: sort_key_stable)
  also have "\<dots> = filter (\<lambda>x. K x = k) xs"
    by (simp only: rev_filter rev_rev_ident)
  finally show ?thesis using True by (simp add: py_sorted_def)
next
  case False
  then show ?thesis by (simp add: py_sorted_def sort_key_stable)
qed

lemma py_sorted_ascending:
  "py_sorted K False xs =
     filter (\<lambda>x. K x = Neg_inf) xs @ filter (\<lambda>x. K x \<noteq> Neg_inf) (py_sorted K False xs)"
proof -
  let ?s = "sort_key K xs"
  have "?s = filter (\<lambda>x. K x = Neg_inf) ?s @ filter (\<lambda>x. K x \<noteq> Neg_inf) ?s"
    by (rule sorted_sentinel_split) simp
  also have "filter (\<lambda>x. K x = Neg_inf) ?s = filter (\<lambda>x. K x = Neg_inf) xs"
    by (rule sort_key_stable)
  finally show ?thesis by (simp add: py_sorted_def)
qed

lemma py_sorted_descending:
  "py_sorted K True xs =
     filter (\<lambda>x. K x \<noteq> Neg_inf) (py_sorted K True xs) @ filter (\<lambda>x. K x = Neg_inf) xs"
proof -
  let ?s = "sort_key K (rev xs)"
  have "?s = filter (\<lambda>x. K x = Neg_inf) ?s @ filter (\<lambda>x. K x \<noteq> Neg_inf) ?s"
    by (rule sorted_sentinel_split) simp
  then have "rev ?s = rev (filter (\<lambda>x. K x = Neg_inf) ?s @ filter (\<lambda>x. K x \<noteq> Neg_inf) ?s)"
    by simp
  also have "\<dots> = filter (\<lambda>x. K x \<noteq> Neg_inf) (rev ?s) @ rev (filter (\<lambda>x. K x = Neg_inf) ?s)"
    by (simp only: rev_append rev_filter)
  also have "rev (filter (\<lambda>x. K x = Neg_inf) ?s) = filter (\<lambda>x. K x = Neg_inf) xs"
    by (simp only: sort_key_stable rev_filter rev_rev_ident)
  finally show ?thesis by (simp add: py_sorted_def)
qed

lemma dropWhile_filter_first:
  "P x \<Longrightarrow> dropWhile (\<lambda>z. z \<noteq> x) (filter P xs) = filter P (dropWhile (\<lambda>z. z \<noteq> x) xs)"
  by (induction xs) auto

lemma tl_filter_first:
  "P x \<Longrightarrow> tl (filter P (dropWhile (\<lambda>z. z \<noteq> x) xs)) = filter P (tl (dropWhile (\<lambda>z. z \<noteq> x) xs))"
  by (induction xs) auto

lemma precedes_filter:
  "P x \<Longrightarrow> precedes x y (filter P xs) \<longleftrightarrow> P y \<and> precedes x y xs"
  by (auto simp: precedes_def dropWhile_filter_first tl_filter_first)

lemma py_sorted_precedes:
  assumes "K x = K y"
  shows "precedes x y (py_sorted K r xs) = precedes x y xs"
proof -
  let ?P = "\<lambda>z. K z = K x"
  have "precedes x y (py_sorted K r xs) \<longleftrightarrow> precedes x y (filter ?P (py_sorted K r xs))"
    using assms by (simp add: precedes_filter)
  also have "\<dots> \<longleftrightarrow> precedes x y (filter ?P xs)"
    by (simp only: py_sorted_stable)
  also have "\<dots> \<longleftrightarrow> precedes x y xs"
    using assms by (simp add: precedes_filter)
  finally show ?thesis .
qed

lemma py_sorted_mset: "mset (py_sorted K r xs) = mset xs"
  by (simp add: py_sorted_def)

lemma get_sort_key_field:
  "get_sort_key py_float \<lparr>field = f, reverse = r\<rparr> = get_sort_key py_float \<lparr>field = f, reverse = r'\<rparr>"
  by (rule ext) (simp add: get_sort_key_def split: ticker_record.splits)

lemma sentinel_key_iff_error:
  "field cs \<noteq> Mentions \<Longrightarrow> get_sort_key py_float cs x = Neg_inf \<longleftrightarrow> is_error (snd x)"
  by (cases "field cs") (simp_all add: get_sort_key_def is_error_def split: ticker_record.splits)

lemma py_sorted_sorted:
  "sorted (map K (py_sorted K False xs))" "sorted (rev (map K (py_sorted K True xs)))"
  by (simp_all add: py_sorted_def rev_map)

text \<open>The view is cut in two blocks: the rows of key \<^verbatim>\<open>-inf\<close>, in insertion order, and the
  others; the first block is the tail of a descending view and the head of an ascending one.\<close>

lemma sorted_ticker_data_blocks:
  "sorted_ticker_data py_float st =
     (if reverse (current_sort st)
      then other_rows py_float (current_sort st) (sorted_ticker_data py_float st)
           @ sentinel_rows py_float (current_sort st) (ticker_data st)
      else sentinel_rows py_float (current_sort st) (ticker_data st)
           @ other_rows py_float (current_sort st) (sorted_ticker_data py_float st))"
proof (cases "reverse (current_sort st)")
  case True
  with py_sorted_descending [of "get_sort_key py_float (current_sort st)" "ticker_data st"]
  show ?thesis
    by (simp add: sorted_ticker_data_def sentinel_rows_def other_rows_def)
next
  case False
  with py_sorted_ascending [of "get_sort_key py_float (current_sort st)" "ticker_data st"]
  show ?thesis
    by (simp add: sorted_ticker_data_def sentinel_rows_def other_rows_def)
qed

lemma example_keys:
  "map (get_sort_key digits_float \<lparr>field = Mentions, reverse = r\<rparr>) example_store =
     [Neg_inf, Num 1234, Neg_inf, Num 99]"
  by (simp add: example_store_def get_sort_key_def digits_float_def replace_empty_def
      isdigit_def isdigit_char_def digit_value_def)

lemma example_sentinel_rows:
  "sentinel_rows digits_float \<lparr>field = Mentions, reverse = r\<rparr> example_store =
     [example_store ! 0, example_store ! 2]"
  by (simp add: sentinel_rows_def example_store_def get_sort_key_def digits_float_def
      replace_empty_def isdigit_def isdigit_char_def digit_value_def)

lemma example_views:
  "map fst (sorted_ticker_data digits_float (example_state True)) =
     [''AMC'', ''BB'', ''GME'', ''TSLA'']"
  "map fst (sorted_ticker_data digits_float (example_state False)) =
     [''GME'', ''TSLA'', ''BB'', ''AMC'']"
  by (simp_all add: sorted_ticker_data_def py_sorted_def example_state_def example_store_def
      get_sort_key_def digits_float_def replace_empty_def isdigit_def isdigit_char_def
      digit_value_def)

text \<open>The rows of key \<^verbatim>\<open>-inf\<close> are the error rows and the valid rows whose sort field
  is not a number; without rows of the second kind the two blocks of the view are the valid
  rows and the error rows.\<close>

lemma set_py_sorted: "set (py_sorted K r xs) = set xs"
  by (simp add: py_sorted_def)

lemma set_sorted_ticker_data: "set (sorted_ticker_data py_float st) = set (ticker_data st)"
  by (simp add: sorted_ticker_data_def set_py_sorted)

lemma sentinel_key_iff:
  "get_sort_key py_float cs x = Neg_inf \<longleftrightarrow> is_error (snd x) \<or> unparsable py_float cs x"
  by (cases "field cs")
     (simp_all add: get_sort_key_def is_error_def unparsable_def
        split: ticker_record.splits option.splits)

lemma sentinel_rows_errors:
  assumes "\<not> list_ex (unparsable py_float cs) rows"
  shows "sentinel_rows py_float cs rows = filter (\<lambda>x. is_error (snd x)) rows"
    and "other_rows py_float cs rows = filter (\<lambda>x. \<not> is_error (snd x)) rows"
proof -
  from assms have "\<forall>x\<in>set rows. get_sort_key py_float cs x = Neg_inf \<longleftrightarrow> is_error (snd x)"
    by (auto simp: sentinel_key_iff list_ex_iff)
  then show "sentinel_rows py_float cs rows = filter (\<lambda>x. is_error (snd x)) rows"
    and "other_rows py_float cs rows = filter (\<lambda>x. \<not> is_error (snd x)) rows"
    unfolding sentinel_rows_def other_rows_def by (auto intro: filter_cong)
qed

lemma sorted_ticker_data_errors:
  assumes "\<not> list_ex (unparsable py_float (current_sort st)) (ticker_data st)"
  shows "sorted_ticker_data py_float st =
     (if reverse (current_sort st)
      then filter (\<lambda>x. \<not> is_error (snd x)) (sorted_ticker_data py_float st)
           @ filter (\<lambda>x. is_error (snd x)) (ticker_data st)
      else filter (\<lambda>x. is_error (snd x)) (ticker_data st)
           @ filter (\<lambda>x. \<not> is_error (snd x)) (sorted_ticker_data py_float st))"
proof -
  from assms have "\<not> list_ex (unparsable py_float (current_sort st)) (sorted_ticker_data py_float st)"
    by (simp add: list_ex_iff set_sorted_ticker_data)
  then have o: "other_rows py_float (current_sort st) (sorted_ticker_data py_float st) =
      filter (\<lambda>x. \<not> is_error (snd x)) (sorted_ticker_data py_float st)"
    by (rule sentinel_rows_errors(2))
  from assms have s: "sentinel_rows py_float (current_sort st) (ticker_data st) =
      filter (\<lambda>x. is_error (snd x)) (ticker_data st)"
    by (rule sentinel_rows_errors(1))
  from sorted_ticker_data_blocks [of py_float st] show ?thesis
    unfolding o s .
qed

lemma example_errors:
  "filter (\<lambda>x. is_error (snd x)) example_store = [example_store ! 0]"
  by (simp add: example_store_def is_error_def)

lemma example_price_views:
  "map fst (sorted_ticker_data digits_float (example_price_state True)) =
     [''BB'', ''AMC'', ''TSLA'', ''GME'']"
  "map fst (sorted_ticker_data digits_float (example_price_state False)) =
     [''GME'', ''TSLA'', ''AMC'', ''BB'']"
  by (simp_all add: sorted_ticker_data_def py_sorted_def example_price_state_def example_store_def
      get_sort_key_def)

text \<open>
  C3, as the code has it. In every sorted view, for every sort field, every ErrorRecord has
  the key \<^verbatim>\<open>-inf\<close>, and the rows of that key are the ErrorRecords and the ValidRecords whose
  sort field value is not a number. These rows, in insertion order, are the end of the view
  when \<open>reverse\<close> (descending) is true and its beginning when it is false. When no
  ValidRecord of the store has such a value, which is always so for the fields
  \<open>price_change\<close> and \<open>sentiment_change\<close>, the ErrorRecords themselves are last when
  \<open>reverse\<close> is true and first when it is false: the view is the valid rows followed by the
  error rows, or the error rows followed by the valid rows.
\<close>

theorem error_records_extremal:
  "get_sort_key py_float cs (t, ErrorRecord s) = Neg_inf
   \<and> (get_sort_key py_float cs x = Neg_inf \<longleftrightarrow> is_error (snd x) \<or> unparsable py_float cs x)
   \<and> (reverse (current_sort st) \<longrightarrow>
        sorted_ticker_data py_float st =
          other_rows py_float (current_sort st) (sorted_ticker_data py_float st)
          @ sentinel_rows py_float (current_sort st) (ticker_data st))
   \<and> (\<not> reverse (current_sort st) \<longrightarrow>
        sorted_ticker_data py_float st =
          sentinel_rows py_float (current_sort st) (ticker_data st)
          @ other_rows py_float (current_sort st) (sorted_ticker_data py_float st))
   \<and> (\<not> list_ex (unparsable py_float (current_sort st)) (ticker_data st) \<and>
        reverse (current_sort st) \<longrightarrow>
        sorted_ticker_data py_float st =
          filter (\<lambda>x. \<not> is_error (snd x)) (sorted_ticker_data py_float st)
          @ filter (\<lambda>x. is_error (snd x)) (ticker_data st))
   \<and> (\<not> list_ex (unparsable py_float (current_sort st)) (ticker_data st) \<and>
        \<not> reverse (current_sort st) \<longrightarrow>
        sorted_ticker_data py_float st =
          filter (\<lambda>x. is_error (snd x)) (ticker_data st)
          @ filter (\<lambda>x. \<not> is_error (snd x)) (sorted_ticker_data py_float st))
   \<and> (field (current_sort st) \<noteq> Mentions \<longrightarrow>
        \<not> list_ex (unparsable py_float (current_sort st)) (ticker_data st))"
proof (intro conjI impI)
  show "get_sort_key py_float cs (t, ErrorRecord s) = Neg_inf"
    by (simp add: get_sort_key_def)
next
  show "get_sort_key py_float cs x = Neg_inf \<longleftrightarrow> is_error (snd x) \<or> unparsable py_float cs x"
    by (rule sentinel_key_iff)
next
  assume "reverse (current_sort st)"
  with sorted_ticker_data_blocks [of py_float st]
  show "sorted_ticker_data py_float st =
          other_rows py_float (current_sort st) (sorted_ticker_data py_float st)
          @ sentinel_rows py_float (current_sort st) (ticker_data st)"
    by simp
next
  assume "\<not> reverse (current_sort st)"
  with sorted_ticker_data_blocks [of py_float st]
  show "sorted_ticker_data py_float st =
          sentinel_rows py_float (current_sort st) (ticker_data st)
          @ other_rows py_float (current_sort st) (sorted_ticker_data py_float st)"
    by simp
next
  assume "\<not> list_ex (unparsable py_float (current_sort st)) (ticker_data st) \<and>
        reverse (current_sort st)"
  with sorted_ticker_data_errors [of py_float st]
  show "sorted_ticker_data py_float st =
          filter (\<lambda>x. \<not> is_error (snd x)) (sorted_ticker_data py_float st)
          @ filter (\<lambda>x. is_error (snd x)) (ticker_data st)"
    by simp
next
  assume "\<not> list_ex (unparsable py_float (current_sort st)) (ticker_data st) \<and>
        \<not> reverse (current_sort st)"
  with sorted_ticker_data_errors [of py_float st]
  show "sorted_ticker_data py_float st =
          filter (\<lambda>x. is_error (snd x)) (ticker_data st)
          @ filter (\<lambda>x. \<not> is_error (snd x)) (sorted_ticker_data py_float st)"
    by simp
next
  assume "field (current_sort st) \<noteq> Mentions"
  then show "\<not> list_ex (unparsable py_float (current_sort st)) (ticker_data st)"
    by (simp add: list_ex_iff unparsable_def split: ticker_record.splits)
qed

theorem error_records_extremal_witness:
  "sorted_ticker_data digits_float (example_price_state True) =
     filter (\<lambda>x. \<not> is_error (snd x)) (sorted_ticker_data digits_float (example_price_state True))
     @ [example_store ! 0]
   \<and> sorted_ticker_data digits_float (example_price_state False) =
     [example_store ! 0]
     @ filter (\<lambda>x. \<not> is_error (snd x)) (sorted_ticker_data digits_float (example_price_state False))
   \<and> sorted_ticker_data digits_float (example_state True) =
     other_rows digits_float \<lparr>field = Mentions, reverse = True\<rparr>
       (sorted_ticker_data digits_float (example_state True))
     @ [example_store ! 0, example_store ! 2]
   \<and> sorted_ticker_data digits_float (example_state False) =
     [example_store ! 0, example_store ! 2]
     @ other_rows digits_float \<lparr>field = Mentions, reverse = False\<rparr>
         (sorted_ticker_data digits_float (example_state False))"
  using error_records_extremal [of digits_float _ _ _ _ "example_price_state True"]
    error_records_extremal [of digits_float _ _ _ _ "example_price_state False"]
    error_records_extremal [of digits_float _ _ _ _ "example_state True"]
    error_records_extremal [of digits_float _ _ _ _ "example_state False"]
  by (simp add: example_price_state_def example_state_def example_errors example_sentinel_rows)

text \<open>Sorted by mentions in ascending order, a valid row whose mention count is
  \<^verbatim>\<open>N/A\<close> and that was inserted before an error row stays before it: the view does not
  begin with the ErrorRecord.\<close>

theorem error_records_first_counterexample:
  "sorted_ticker_data digits_float
     \<lparr>ticker_data = unparsable_store, last_update_time = None,
      current_sort = \<lparr>field = Mentions, reverse = False\<rparr>, status_text = ''''\<rparr>
   = [(''TSLA'', ValidRecord \<lparr>prices = [10, 11], timestamps = [1, 2], price_change = 10,
                 sentiment_change = 7, mentions = ''N/A''\<rparr>),
      (''GME'', ErrorRecord ''Error fetching data'')]
   \<and> \<not> is_error (snd (hd (sorted_ticker_data digits_float
     \<lparr>ticker_data = unparsable_store, last_update_time = None,
      current_sort = \<lparr>field = Mentions, reverse = False\<rparr>, status_text = ''''\<rparr>)))
   \<and> is_error (snd (last (sorted_ticker_data digits_float
     \<lparr>ticker_data = unparsable_store, last_update_time = None,
      current_sort = \<lparr>field = Mentions, reverse = False\<rparr>, status_text = ''''\<rparr>)))"
  by (simp add: sorted_ticker_data_def py_sorted_def unparsable_store_def get_sort_key_def
      digits_float_def replace_empty_def isdigit_def isdigit_char_def is_error_def)

text \<open>
  C8. The sorted view is stable in both directions: for every key, the rows of that key
  are in the view in the order in which they are in the store; so of two rows with equal
  keys, the one inserted first comes first in the view, whether \<open>reverse\<close> is true or
  false.
\<close>

theorem sorted_ticker_data_stable:
  "filter (\<lambda>z. get_sort_key py_float (current_sort st) z = k) (sorted_ticker_data py_float st) =
     filter (\<lambda>z. get_sort_key py_float (current_sort st) z = k) (ticker_data st)
   \<and> (get_sort_key py_float (current_sort st) x = get_sort_key py_float (current_sort st) y \<longrightarrow>
        precedes x y (sorted_ticker_data py_float st) = precedes x y (ticker_data st))"
  by (simp add: sorted_ticker_data_def py_sorted_stable py_sorted_precedes)

theorem sorted_ticker_data_stable_witness:
  "precedes (example_store ! 0) (example_store ! 2)
     (sorted_ticker_data digits_float (example_state True))
   \<and> precedes (example_store ! 0) (example_store ! 2)
     (sorted_ticker_data digits_float (example_state False))"
  using sorted_ticker_data_stable
      [of digits_float "example_state True" _ "example_store ! 0" "example_store ! 2"]
    sorted_ticker_data_stable
      [of digits_float "example_state False" _ "example_store ! 0" "example_store ! 2"]
  by (simp add: example_state_def example_store_def get_sort_key_def digits_float_def
      replace_empty_def isdigit_def isdigit_char_def digit_value_def precedes_def)

text \<open>
  C10. When the sort field is \<open>mentions\<close> and the mention count of a ValidRecord, its
  commas removed, is not a number, the key function does not fail: the row gets the key
  \<^verbatim>\<open>-inf\<close>, the key of an ErrorRecord, and so it is in the block of the rows of that key,
  at the end of a descending view and at the beginning of an ascending one.
\<close>

theorem unparsable_mentions_sentinel:
  assumes "py_float (replace_empty (CHR '','') (mentions d)) = None"
    and "field (current_sort st) = Mentions"
  shows "get_sort_key py_float (current_sort st) (t, ValidRecord d) = Neg_inf
   \<and> get_sort_key py_float (current_sort st) (t, ValidRecord d) =
       get_sort_key py_float (current_sort st) (t', ErrorRecord s)
   \<and> ((t, ValidRecord d) \<in> set (ticker_data st) \<longrightarrow>
        (t, ValidRecord d) \<in> set (sentinel_rows py_float (current_sort st) (ticker_data st)))
   \<and> (reverse (current_sort st) \<longrightarrow>
        sorted_ticker_data py_float st =
          other_rows py_float (current_sort st) (sorted_ticker_data py_float st)
          @ sentinel_rows py_float (current_sort st) (ticker_data st))
   \<and> (\<not> reverse (current_sort st) \<longrightarrow>
        sorted_ticker_data py_float st =
          sentinel_rows py_float (current_sort st) (ticker_data st)
          @ other_rows py_float (current_sort st) (sorted_ticker_data py_float st))"
proof -
  from assms have k: "get_sort_key py_float (current_sort st) (t, ValidRecord d) = Neg_inf"
    by (simp add: get_sort_key_def)
  have e: "get_sort_key py_float (current_sort st) (t', ErrorRecord s) = Neg_inf"
    by (simp add: get_sort_key_def)
  from k have m: "(t, ValidRecord d) \<in> set (ticker_data st) \<longrightarrow>
        (t, ValidRecord d) \<in> set (sentinel_rows py_float (current_sort st) (ticker_data st))"
    by (simp add: sentinel_rows_def)
  from sorted_ticker_data_blocks [of py_float st] have b:
    "reverse (current_sort st) \<longrightarrow>
        sorted_ticker_data py_float st =
          other_rows py_float (current_sort st) (sorted_ticker_data py_float st)
          @ sentinel_rows py_float (current_sort st) (ticker_data st)"
    "\<not> reverse (current_sort st) \<longrightarrow>
        sorted_ticker_data py_float st =
          sentinel_rows py_float (current_sort st) (ticker_data st)
          @ other_rows py_float (current_sort st) (sorted_ticker_data py_float st)"
    by (cases "reverse (current_sort st)"; simp)+
  from k e m b show ?thesis by (intro conjI) simp_all
qed

theorem unparsable_mentions_sentinel_witness:
  "get_sort_key digits_float \<lparr>field = Mentions, reverse = True\<rparr> (example_store ! 2) = Neg_inf
   \<and> example_store ! 2 \<in> set (sentinel_rows digits_float \<lparr>field = Mentions, reverse = True\<rparr> example_store)
   \<and> sorted_ticker_data digits_float (example_state True) =
       other_rows digits_float \<lparr>field = Mentions, reverse = True\<rparr>
         (sorted_ticker_data digits_float (example_state True))
       @ sentinel_rows digits_float \<lparr>field = Mentions, reverse = True\<rparr> example_store"
  using unparsable_mentions_sentinel
    [of digits_float "\<lparr>prices = [10, 11], timestamps = [1, 2], price_change = 10,
                 sentiment_change = 7, mentions = ''N/A''\<rparr>" "example_state True" "''TSLA''"]
  by (simp add: example_state_def example_store_def digits_float_def replace_empty_def
      isdigit_def isdigit_char_def)

end
